theory Spec2Isabelle
  imports Main "HOL-Library.Signed_Division"
begin

section \<open>Go values\<close>

text \<open>
  Go's \<open>int\<close> and \<open>int64\<close> are 64-bit two's complement integers: addition and
  subtraction wrap around, and \<open>%\<close> is the remainder of the truncating division (its
  sign is the sign of the dividend).
\<close>

definition wrap64 :: "int \<Rightarrow> int" where
  "wrap64 x = (x + 2 ^ 63) mod 2 ^ 64 - 2 ^ 63"

definition go_add :: "int \<Rightarrow> int \<Rightarrow> int" where
  "go_add a b = wrap64 (a + b)"

definition go_sub :: "int \<Rightarrow> int \<Rightarrow> int" where
  "go_sub a b = wrap64 (a - b)"

definition go_rem :: "int \<Rightarrow> int \<Rightarrow> int" where
  "go_rem a b = a smod b"

text \<open>A run-time panic of the Go program.\<close>

datatype panic = IndexOutOfRange | NilDereference

text \<open>
  \<open>xs[i]\<close> on a slice: the index is a signed integer, and an index outside
  \<open>[0, len(xs))\<close> panics.
\<close>

definition go_index :: "'a list \<Rightarrow> int \<Rightarrow> 'a option" where
  "go_index xs i = (if 0 \<le> i \<and> i < int (length xs) then Some (xs ! nat i) else None)"

text \<open>
  Pointers to objects whose types are declared outside these sources (\<open>*git.Repo\<close>,
  the panels' concrete types, the window-change channel) are addresses.
\<close>

type_synonym ref = nat

text \<open>
  A \<open>*git.RepoSource\<close>: nil, the repository source that \<open>SessionHandler\<close> creates,
  or a struct that \<open>json.Unmarshal\<close> allocated for a nil pointer field.
\<close>

datatype RepoSourcePtr = NilSource | SharedSource | DecodedSource

section \<open>The data model of \<open>tui/bubble.go\<close>\<close>

datatype sessionState = startState | errorState | loadedState | quittingState | quitState

text \<open>The \<open>iota\<close> numbering of the states, which \<open>%d\<close> prints.\<close>

fun state_num :: "sessionState \<Rightarrow> nat" where
  "state_num startState = 0"
| "state_num errorState = 1"
| "state_num loadedState = 2"
| "state_num quittingState = 3"
| "state_num quitState = 4"

record MenuEntry =
  entry_Name :: string
  entry_Note :: string
  entry_Repo :: string

record Config =
  Name :: string
  Host :: string
  Port :: int
  ShowAllRepos :: bool
  Menu :: "MenuEntry list"
  RepoSource :: RepoSourcePtr

record SessionConfig =
  Width :: int
  Height :: int
  WindowChanges :: ref

text \<open>
  The session controller. \<open>boxes\<close> holds the two panels as \<open>tea.Model\<close> interface
  values, \<open>None\<close> being the nil interface that \<open>make([]tea.Model, 2)\<close> fills in;
  \<open>'p\<close> is the panels' own state. \<open>config\<close> is a pointer and may be nil.
\<close>

record 'p Bubble =
  config :: "Config option"
  state :: sessionState
  error :: string
  width :: int
  height :: int
  windowChanges :: ref
  repoSource :: RepoSourcePtr
  repoMenu :: "MenuEntry list"
  repos :: "ref list"
  boxes :: "'p option list"
  activeBox :: int
  repoSelect :: "ref option"
  commitsLog :: "ref option"

text \<open>
  The messages \<open>Update\<close> switches on. A key message carries what its \<open>String()\<close>
  returns, an error message what its \<open>Error()\<close> returns, the selector's two messages
  their \<open>Index\<close>; \<open>OtherMsg\<close> is any message of another type.
\<close>

datatype 'o msg =
    KeyMsg string
  | errMsg string
  | windowMsg
  | WindowSizeMsg int int
  | SelectedMsg int
  | ActiveMsg int
  | OtherMsg 'o

text \<open>
  Commands are kept symbolic: \<open>tea.Quit\<close>, the result of \<open>tea.Batch\<close> on a list of
  commands, the controller's own commands (their bodies are outside these sources), and
  \<open>OtherCmd\<close> for whatever a panel returns. A nil command is \<open>None\<close>.
\<close>

datatype 'c cmd =
    Quit
  | Batch "'c cmd list"
  | windowChangesCmd
  | setupCmd
  | getRepoCmd string
  | OtherCmd 'c

text \<open>The two methods of \<open>tea.Model\<close> that the controller calls on a panel.\<close>

record ('p, 'c, 'o) panel_ops =
  panelUpdate :: "'p \<Rightarrow> 'o msg \<Rightarrow> 'p option \<times> 'c cmd option"
  panelView :: "'p \<Rightarrow> string"

section \<open>\<open>NewBubble\<close>, \<open>Init\<close> and \<open>Update\<close>\<close>

text \<open>\<open>NewBubble\<close> reads \<open>cfg.RepoSource\<close>, so a nil \<open>cfg\<close> panics.\<close>

definition NewBubble :: "Config option \<Rightarrow> SessionConfig \<Rightarrow> panic + 'p Bubble" where
  "NewBubble cfg sCfg =
     (case cfg of
        None \<Rightarrow> Inl NilDereference
      | Some c \<Rightarrow>
          Inr \<lparr> config = cfg, state = startState, error = [], width = Width sCfg,
                height = Height sCfg, windowChanges = WindowChanges sCfg,
                repoSource = RepoSource c, repoMenu = [], repos = [],
                boxes = [None, None], activeBox = 0, repoSelect = None,
                commitsLog = None \<rparr>)"

definition Init :: "'p Bubble \<Rightarrow> 'c cmd option" where
  "Init b = Some (Batch [windowChangesCmd, setupCmd])"

text \<open>
  The type switch at the head of \<open>Update\<close> either returns at once or falls through
  to the delegation with the commands collected so far.
\<close>

datatype ('p, 'c) flow =
    Return "'p Bubble" "'c cmd option"
  | Continue "'p Bubble" "'c cmd list"

fun switch_msg :: "'p Bubble \<Rightarrow> 'o msg \<Rightarrow> panic + ('p, 'c) flow" where
  "switch_msg b (KeyMsg s) =
     (if s = ''q'' \<or> s = ''ctrl+c'' then Inr (Return b (Some Quit))
      else if s = ''tab''
        then Inr (Continue (b\<lparr>activeBox := go_rem (go_add (activeBox b) 1) 2\<rparr>) [])
      else Inr (Continue b []))"
| "switch_msg b (errMsg e) = Inr (Return (b\<lparr>error := e, state := errorState\<rparr>) None)"
| "switch_msg b windowMsg = Inr (Continue b [windowChangesCmd])"
| "switch_msg b (WindowSizeMsg w h) = Inr (Continue (b\<lparr>width := w, height := h\<rparr>) [])"
| "switch_msg b (SelectedMsg i) =
     (case go_index (repoMenu b) i of
        None \<Rightarrow> Inl IndexOutOfRange
      | Some e \<Rightarrow> Inr (Continue (b\<lparr>activeBox := 1\<rparr>) [getRepoCmd (entry_Repo e)]))"
| "switch_msg b (ActiveMsg i) =
     (case go_index (repoMenu b) i of
        None \<Rightarrow> Inl IndexOutOfRange
      | Some e \<Rightarrow> Inr (Continue b [getRepoCmd (entry_Repo e)]))"
| "switch_msg b (OtherMsg x) = Inr (Continue b [])"

text \<open>
  The tail of \<open>Update\<close>: in \<open>loadedState\<close> the message goes to the panel at
  \<open>activeBox\<close>, the panel is replaced by the model it returns, and its command, unless
  nil, is appended.
\<close>

definition delegate ::
  "('p, 'c, 'o) panel_ops \<Rightarrow> 'p Bubble \<Rightarrow> 'c cmd list \<Rightarrow> 'o msg \<Rightarrow>
     panic + ('p Bubble \<times> 'c cmd option)" where
  "delegate ops b cmds m =
     (if state b = loadedState then
        (case go_index (boxes b) (activeBox b) of
           None \<Rightarrow> Inl IndexOutOfRange
         | Some None \<Rightarrow> Inl NilDereference
         | Some (Some p) \<Rightarrow>
             (case panelUpdate ops p m of
                (ab, c) \<Rightarrow>
                  Inr (b\<lparr>boxes := (boxes b)[nat (activeBox b) := ab]\<rparr>,
                       Some (Batch (case c of None \<Rightarrow> cmds | Some c' \<Rightarrow> cmds @ [c'])))))
      else Inr (b, Some (Batch cmds)))"

definition Update ::
  "('p, 'c, 'o) panel_ops \<Rightarrow> 'p Bubble \<Rightarrow> 'o msg \<Rightarrow> panic + ('p Bubble \<times> 'c cmd option)" where
  "Update ops b m =
     (case switch_msg b m of
        Inl p \<Rightarrow> Inl p
      | Inr (Return b' c) \<Rightarrow> Inr (b', c)
      | Inr (Continue b' cmds) \<Rightarrow> delegate ops b' cmds m)"

text \<open>Processing a sequence of events in arrival order; a panic ends the run.\<close>

fun run ::
  "('p, 'c, 'o) panel_ops \<Rightarrow> 'p Bubble \<Rightarrow> 'o msg list \<Rightarrow>
     panic + ('p Bubble \<times> 'c cmd option list)" where
  "run ops b [] = Inr (b, [])"
| "run ops b (m # ms) =
     (case Update ops b m of
        Inl p \<Rightarrow> Inl p
      | Inr (b', c) \<Rightarrow>
          (case run ops b' ms of
             Inl p \<Rightarrow> Inl p
           | Inr (b'', cs) \<Rightarrow> Inr (b'', c # cs)))"

section \<open>\<open>View\<close>\<close>

text \<open>
  The styling library is outside these sources, so a rendered string is kept as the
  term of library calls that builds it: a literal, \<open>style.Render(s)\<close>,
  \<open>lipgloss.JoinHorizontal(pos, ...)\<close> and Go's string concatenation. A style is a
  named style of the package, possibly with \<open>.Width(w)\<close> applied.
\<close>

datatype style_name =
  headerStyle | footerStyle | activeBoxStyle | inactiveBoxStyle | errorStyle | normalStyle |
  appBoxStyle

datatype style = Style style_name | WidthOf style int

datatype position = Top

datatype doc =
    Lit string
  | Render style doc
  | JoinHorizontal position "doc list"
  | Concat "doc list"

text \<open>
  The layout constants \<open>boxLeftWidth\<close>, \<open>boxRightWidth\<close> and
  \<open>horizontalPadding\<close> are declared in a file of the package that is not among these
  sources; they are parameters here.
\<close>

record layout_consts =
  boxLeftWidth :: int
  boxRightWidth :: int
  horizontalPadding :: int

text \<open>\<open>%d\<close> of a non-negative integer.\<close>

fun fmt_d :: "nat \<Rightarrow> string" where
  "fmt_d n =
     (if n < 10 then [''0123456789'' ! n]
      else fmt_d (n div 10) @ [''0123456789'' ! (n mod 10)])"

definition viewForBox ::
  "('p, 'c, 'o) panel_ops \<Rightarrow> 'p Bubble \<Rightarrow> int \<Rightarrow> int \<Rightarrow> panic + doc" where
  "viewForBox ops b i w =
     (let ls = (if i = activeBox b then WidthOf (Style activeBoxStyle) w
                else WidthOf (Style inactiveBoxStyle) w)
      in case go_index (boxes b) i of
           None \<Rightarrow> Inl IndexOutOfRange
         | Some None \<Rightarrow> Inl NilDereference
         | Some (Some p) \<Rightarrow> Inr (Render ls (Lit (panelView ops p))))"

definition View ::
  "layout_consts \<Rightarrow> ('p, 'c, 'o) panel_ops \<Rightarrow> 'p Bubble \<Rightarrow> panic + doc" where
  "View C ops b =
     (case config b of
        None \<Rightarrow> Inl NilDereference
      | Some cfg \<Rightarrow>
          (let h = Render (WidthOf (Style headerStyle) (go_sub (width b) (horizontalPadding C)))
                     (Lit (Name cfg));
               f = Render (Style footerStyle) (Lit [])
           in case
                (case state b of
                   loadedState \<Rightarrow>
                     (case viewForBox ops b 0 (boxLeftWidth C) of
                        Inl p \<Rightarrow> Inl p
                      | Inr lb \<Rightarrow>
                          (case viewForBox ops b 1 (boxRightWidth C) of
                             Inl p \<Rightarrow> Inl p
                           | Inr rb \<Rightarrow> Inr (JoinHorizontal Top [lb, rb])))
                 | errorState \<Rightarrow> Inr (Render (Style errorStyle) (Lit (''Bummer: '' @ error b)))
                 | _ \<Rightarrow>
                     Inr (Render (Style normalStyle)
                            (Lit (''Doing something weird '' @ fmt_d (state_num (state b))))))
              of
                Inl p \<Rightarrow> Inl p
              | Inr s \<Rightarrow>
                  Inr (Render (Style appBoxStyle)
                         (Concat [h, Lit ''\<newline>\<newline>'', s, Lit ''\<newline>'', f]))))"

text \<open>
  Reading a rendered frame: the widths given to the styles of the boxes that are joined
  side by side, and the width given to the header's style.
\<close>

fun style_width :: "style \<Rightarrow> int option" where
  "style_width (Style n) = None"
| "style_width (WidthOf s w) = Some w"

fun render_width :: "doc \<Rightarrow> int option" where
  "render_width (Render s d) = style_width s"
| "render_width d = None"

fun panel_widths :: "doc \<Rightarrow> int option list" where
  "panel_widths (Render s (Concat [h, sep, JoinHorizontal pos ds, sep', f])) = map render_width ds"
| "panel_widths d = []"

fun header_width :: "doc \<Rightarrow> int option" where
  "header_width (Render s (Concat (h # ds))) = render_width h"
| "header_width d = None"

text \<open>The dimensions of the last resize event of a sequence, if there is one.\<close>

fun last_resize :: "'o msg list \<Rightarrow> (int \<times> int) option" where
  "last_resize [] = None"
| "last_resize (m # ms) =
     (case last_resize ms of
        Some d \<Rightarrow> Some d
      | None \<Rightarrow> (case m of WindowSizeMsg w h \<Rightarrow> Some (w, h) | _ \<Rightarrow> None))"

text \<open>
  Modelled from the spec: the bodies of the setup and load commands (\<open>setupCmd\<close>,
  \<open>getRepoCmd\<close>) are outside these sources. They complete the initial setup: the menu
  entries are loaded from the configuration, the two panels are populated, and the state
  moves from Starting to Ready or to Error. That is the third rule of the states a
  session can reach; the first two are \<open>NewBubble\<close> and \<open>Update\<close>.
\<close>

inductive reachable :: "('p, 'c, 'o) panel_ops \<Rightarrow> 'p Bubble \<Rightarrow> bool"
  for ops :: "('p, 'c, 'o) panel_ops" where
  reachable_new: "NewBubble cfg sCfg = Inr b \<Longrightarrow> reachable ops b"
| reachable_update:
    "reachable ops b \<Longrightarrow> Update ops b m = Inr (b', c) \<Longrightarrow> reachable ops b'"
| reachable_setup:
    "reachable ops b \<Longrightarrow>
       reachable ops (b\<lparr>state := s, error := e, repoMenu := menu, repos := rs, boxes := bs,
                         repoSelect := sel, commitsLog := lg\<rparr>)"

section \<open>Loading the configuration\<close>

text \<open>
  A parsed JSON document. A number keeps whether its literal is an integer literal: only
  those can be stored in an \<open>int64\<close>. An object keeps its members in document order,
  repeated keys included.
\<close>

datatype number = IntLit int | FloatLit string

datatype json =
    JNull
  | JBool bool
  | JNumber number
  | JString string
  | JArray "json list"
  | JObject "(string \<times> json) list"

text \<open>
  The errors of \<open>json.Unmarshal\<close>: the text is not JSON, or a value does not fit the Go
  type of the field it is for (the value and the field are kept).
\<close>

datatype json_error = SyntaxError | UnmarshalTypeError json string

type_synonym git_error = string

text \<open>The three errors that \<open>loadConfig\<close> wraps.\<close>

datatype load_error =
    CannotLoadConfigRepo git_error
  | CannotLoadConfigJson git_error
  | BadJson json_error

text \<open>
  What the program calls and these sources do not define: the \<open>git\<close> package's
  repository source (\<open>'rs\<close> is its state, \<open>'repo\<close> a repository handle),
  \<open>createDefaultConfigRepo\<close> of this package, the scanner of \<open>encoding/json\<close> that turns
  text into a document or rejects it, and what \<open>json.Unmarshal\<close> does with a value
  other than null whose target is a \<open>git.RepoSource\<close> struct.
\<close>

record ('rs, 'repo) library =
  NewRepoSource :: "string \<Rightarrow> 'rs"
  createDefaultConfigRepo :: "'rs \<Rightarrow> 'rs \<times> git_error option"
  LoadRepos :: "'rs \<Rightarrow> 'rs \<times> git_error option"
  GetRepo :: "'rs \<Rightarrow> string \<Rightarrow> git_error + 'repo"
  LatestFile :: "'repo \<Rightarrow> string \<Rightarrow> git_error + string"
  scan :: "string \<Rightarrow> json option"
  unmarshalRepoSource :: "json \<Rightarrow> json_error option"

text \<open>
  \<open>json.Unmarshal\<close> into a struct, as \<open>encoding/json\<close> documents it. An object key is
  matched to the key of a field (its tag, or its name when it has no tag)
  case-insensitively; for the ASCII keys of these structs that is: after lowering the
  letters A to Z and reading the UTF-8 bytes of the long s (U+017F) as \<open>s\<close>. Keys without
  a field are ignored. Null leaves a string, a number or a boolean as it is and makes a
  slice or a pointer nil. An array replaces the slice, element by element. A value that
  does not fit its field is an \<open>UnmarshalTypeError\<close>; \<open>loadConfig\<close> drops the
  configuration on any error, so decoding stops at the first one here.
\<close>

definition lower_table :: "(char \<times> char) list" where
  "lower_table = zip ''ABCDEFGHIJKLMNOPQRSTUVWXYZ'' ''abcdefghijklmnopqrstuvwxyz''"

definition ascii_lower :: "char \<Rightarrow> char" where
  "ascii_lower c = (case map_of lower_table c of Some l \<Rightarrow> l | None \<Rightarrow> c)"

fun fold_name :: "string \<Rightarrow> string" where
  "fold_name (c # d # cs) =
     (if c = CHR 0xC5 \<and> d = CHR 0xBF then CHR ''s'' # fold_name cs
      else ascii_lower c # fold_name (d # cs))"
| "fold_name [c] = [ascii_lower c]"
| "fold_name [] = []"

datatype config_field = F_Name | F_Host | F_Port | F_ShowAllRepos | F_Menu | F_RepoSource

definition config_field_of :: "string \<Rightarrow> config_field option" where
  "config_field_of key =
     map_of [(''name'', F_Name), (''host'', F_Host), (''port'', F_Port),
             (''show_all_repos'', F_ShowAllRepos), (''menu'', F_Menu),
             (''reposource'', F_RepoSource)] (fold_name key)"

datatype entry_field = E_Name | E_Note | E_Repo

definition entry_field_of :: "string \<Rightarrow> entry_field option" where
  "entry_field_of key =
     map_of [(''name'', E_Name), (''note'', E_Note), (''repo'', E_Repo)] (fold_name key)"

definition unmarshal_string :: "string \<Rightarrow> json \<Rightarrow> string \<Rightarrow> json_error + string" where
  "unmarshal_string f v old =
     (case v of JNull \<Rightarrow> Inr old | JString s \<Rightarrow> Inr s | _ \<Rightarrow> Inl (UnmarshalTypeError v f))"

definition unmarshal_int64 :: "string \<Rightarrow> json \<Rightarrow> int \<Rightarrow> json_error + int" where
  "unmarshal_int64 f v old =
     (case v of
        JNull \<Rightarrow> Inr old
      | JNumber (IntLit i) \<Rightarrow>
          (if - (2 ^ 63) \<le> i \<and> i < 2 ^ 63 then Inr i else Inl (UnmarshalTypeError v f))
      | _ \<Rightarrow> Inl (UnmarshalTypeError v f))"

definition unmarshal_bool :: "string \<Rightarrow> json \<Rightarrow> bool \<Rightarrow> json_error + bool" where
  "unmarshal_bool f v old =
     (case v of JNull \<Rightarrow> Inr old | JBool b \<Rightarrow> Inr b | _ \<Rightarrow> Inl (UnmarshalTypeError v f))"

text \<open>The members of an object, decoded in document order into the struct so far.\<close>

fun unmarshal_members ::
  "('a \<Rightarrow> string \<times> json \<Rightarrow> json_error + 'a) \<Rightarrow> 'a \<Rightarrow> (string \<times> json) list \<Rightarrow>
     json_error + 'a" where
  "unmarshal_members f a [] = Inr a"
| "unmarshal_members f a (kv # kvs) =
     (case f a kv of Inl e \<Rightarrow> Inl e | Inr a' \<Rightarrow> unmarshal_members f a' kvs)"

definition zero_MenuEntry :: MenuEntry where
  "zero_MenuEntry = \<lparr> entry_Name = [], entry_Note = [], entry_Repo = [] \<rparr>"

definition zero_Config :: Config where
  "zero_Config =
     \<lparr> Name = [], Host = [], Port = 0, ShowAllRepos = False, Menu = [],
       RepoSource = NilSource \<rparr>"

definition unmarshal_entry_member :: "MenuEntry \<Rightarrow> string \<times> json \<Rightarrow> json_error + MenuEntry" where
  "unmarshal_entry_member e kv =
     (case entry_field_of (fst kv) of
        None \<Rightarrow> Inr e
      | Some E_Name \<Rightarrow>
          map_sum id (\<lambda>s. e\<lparr>entry_Name := s\<rparr>) (unmarshal_string ''name'' (snd kv) (entry_Name e))
      | Some E_Note \<Rightarrow>
          map_sum id (\<lambda>s. e\<lparr>entry_Note := s\<rparr>) (unmarshal_string ''note'' (snd kv) (entry_Note e))
      | Some E_Repo \<Rightarrow>
          map_sum id (\<lambda>s. e\<lparr>entry_Repo := s\<rparr>) (unmarshal_string ''repo'' (snd kv) (entry_Repo e)))"

definition unmarshal_entry :: "json \<Rightarrow> json_error + MenuEntry" where
  "unmarshal_entry v =
     (case v of
        JNull \<Rightarrow> Inr zero_MenuEntry
      | JObject kvs \<Rightarrow> unmarshal_members unmarshal_entry_member zero_MenuEntry kvs
      | _ \<Rightarrow> Inl (UnmarshalTypeError v ''menu''))"

fun unmarshal_menu :: "json list \<Rightarrow> json_error + MenuEntry list" where
  "unmarshal_menu [] = Inr []"
| "unmarshal_menu (v # vs) =
     (case unmarshal_entry v of
        Inl e \<Rightarrow> Inl e
      | Inr x \<Rightarrow> (case unmarshal_menu vs of Inl e \<Rightarrow> Inl e | Inr xs \<Rightarrow> Inr (x # xs)))"

definition unmarshal_config_member ::
  "('rs, 'repo) library \<Rightarrow> Config \<Rightarrow> string \<times> json \<Rightarrow> json_error + Config" where
  "unmarshal_config_member lib cfg kv =
     (case config_field_of (fst kv) of
        None \<Rightarrow> Inr cfg
      | Some F_Name \<Rightarrow>
          map_sum id (\<lambda>s. cfg\<lparr>Name := s\<rparr>) (unmarshal_string ''name'' (snd kv) (Name cfg))
      | Some F_Host \<Rightarrow>
          map_sum id (\<lambda>s. cfg\<lparr>Host := s\<rparr>) (unmarshal_string ''host'' (snd kv) (Host cfg))
      | Some F_Port \<Rightarrow>
          map_sum id (\<lambda>i. cfg\<lparr>Port := i\<rparr>) (unmarshal_int64 ''port'' (snd kv) (Port cfg))
      | Some F_ShowAllRepos \<Rightarrow>
          map_sum id (\<lambda>b. cfg\<lparr>ShowAllRepos := b\<rparr>)
            (unmarshal_bool ''show_all_repos'' (snd kv) (ShowAllRepos cfg))
      | Some F_Menu \<Rightarrow>
          (case snd kv of
             JNull \<Rightarrow> Inr (cfg\<lparr>Menu := []\<rparr>)
           | JArray vs \<Rightarrow> map_sum id (\<lambda>m. cfg\<lparr>Menu := m\<rparr>) (unmarshal_menu vs)
           | _ \<Rightarrow> Inl (UnmarshalTypeError (snd kv) ''menu''))
      | Some F_RepoSource \<Rightarrow>
          (case snd kv of
             JNull \<Rightarrow> Inr (cfg\<lparr>RepoSource := NilSource\<rparr>)
           | _ \<Rightarrow>
               (case unmarshalRepoSource lib (snd kv) of
                  Some e \<Rightarrow> Inl e
                | None \<Rightarrow>
                    Inr (cfg\<lparr>RepoSource :=
                           (if RepoSource cfg = NilSource then DecodedSource
                            else RepoSource cfg)\<rparr>))))"

definition unmarshal_value :: "('rs, 'repo) library \<Rightarrow> json \<Rightarrow> Config \<Rightarrow> json_error + Config" where
  "unmarshal_value lib v cfg =
     (case v of
        JNull \<Rightarrow> Inr cfg
      | JObject kvs \<Rightarrow> unmarshal_members (unmarshal_config_member lib) cfg kvs
      | _ \<Rightarrow> Inl (UnmarshalTypeError v ''Config''))"

definition json_Unmarshal :: "('rs, 'repo) library \<Rightarrow> string \<Rightarrow> Config \<Rightarrow> json_error + Config" where
  "json_Unmarshal lib text cfg =
     (case scan lib text of None \<Rightarrow> Inl SyntaxError | Some v \<Rightarrow> unmarshal_value lib v cfg)"

definition loadConfig :: "('rs, 'repo) library \<Rightarrow> 'rs \<Rightarrow> load_error + Config" where
  "loadConfig lib rs =
     (case GetRepo lib rs ''config'' of
        Inl err \<Rightarrow> Inl (CannotLoadConfigRepo err)
      | Inr cr \<Rightarrow>
          (case LatestFile lib cr ''config.json'' of
             Inl err \<Rightarrow> Inl (CannotLoadConfigJson err)
           | Inr cs \<Rightarrow>
               (case json_Unmarshal lib cs (zero_Config\<lparr>RepoSource := SharedSource\<rparr>) of
                  Inl err \<Rightarrow> Inl (BadJson err)
                | Inr cfg \<Rightarrow> Inr cfg)))"

text \<open>
  The document of a configuration, under the keys of the struct tags; \<open>json_known\<close> are
  the members of an object whose key belongs to a field of \<open>Config\<close>.
\<close>

definition entry_document :: "MenuEntry \<Rightarrow> json" where
  "entry_document e =
     JObject [(''name'', JString (entry_Name e)), (''note'', JString (entry_Note e)),
              (''repo'', JString (entry_Repo e))]"

definition config_document :: "Config \<Rightarrow> (string \<times> json) list" where
  "config_document cfg =
     [(''name'', JString (Name cfg)), (''host'', JString (Host cfg)),
      (''port'', JNumber (IntLit (Port cfg))), (''show_all_repos'', JBool (ShowAllRepos cfg)),
      (''menu'', JArray (map entry_document (Menu cfg)))]"

definition json_known :: "(string \<times> json) list \<Rightarrow> (string \<times> json) list" where
  "json_known kvs = filter (\<lambda>kv. config_field_of (fst kv) \<noteq> None) kvs"

section \<open>\<open>SessionHandler\<close>\<close>

text \<open>
  What \<open>SessionHandler\<close> leaves behind when it returns: the repository source, the
  configuration pointer \<open>appCfg\<close> that the returned closure and the refresh goroutine
  share (nil when the load failed), and the lines logged so far. \<open>log.Fatalf\<close> ends
  the process instead; that is the \<open>Inl\<close> result.
\<close>

datatype log_line =
    CannotCreateConfigRepo git_error
  | CannotLoadConfig load_error
  | CannotLoadRepos git_error

record 'rs server =
  source :: 'rs
  appCfg :: "Config option"
  logged :: "log_line list"

definition SessionHandler :: "('rs, 'repo) library \<Rightarrow> string \<Rightarrow> log_line + 'rs server" where
  "SessionHandler lib reposPath =
     (case createDefaultConfigRepo lib (NewRepoSource lib reposPath) of
        (rs, Some err) \<Rightarrow> Inl (CannotCreateConfigRepo err)
      | (rs, None) \<Rightarrow>
          (case loadConfig lib rs of
             Inl err \<Rightarrow> Inr \<lparr> source = rs, appCfg = None, logged = [CannotLoadConfig err] \<rparr>
           | Inr cfg \<Rightarrow> Inr \<lparr> source = rs, appCfg = Some cfg, logged = [] \<rparr>))"

text \<open>One pass of the body of the refresh goroutine's loop, after its sleep.\<close>

definition refresh :: "('rs, 'repo) library \<Rightarrow> 'rs server \<Rightarrow> 'rs server" where
  "refresh lib s =
     (case LoadRepos lib (source s) of
        (rs, Some err) \<Rightarrow> s\<lparr>source := rs, logged := logged s @ [CannotLoadRepos err]\<rparr>
      | (rs, None) \<Rightarrow>
          (case loadConfig lib rs of
             Inl err \<Rightarrow> s\<lparr>source := rs, logged := logged s @ [CannotLoadConfig err]\<rparr>
           | Inr cfg \<Rightarrow> s\<lparr>source := rs, appCfg := Some cfg\<rparr>))"

text \<open>
  The closure that \<open>SessionHandler\<close> returns, applied to a session: its command line,
  and what \<open>s.Pty()\<close> gives.
\<close>

record ssh_Session =
  Command :: "string list"
  Pty_Width :: int
  Pty_Height :: int
  Pty_changes :: ref
  Pty_active :: bool

datatype ProgramOption = WithAltScreen

definition handler :: "'rs server \<Rightarrow> ssh_Session \<Rightarrow> panic + ('p Bubble option \<times> ProgramOption list)" where
  "handler s sess =
     (if length (Command sess) = 0 then
        (if \<not> Pty_active sess then Inr (None, [])
         else
           (case NewBubble (appCfg s)
                   \<lparr> Width = Pty_Width sess, Height = Pty_Height sess,
                     WindowChanges = Pty_changes sess \<rparr> of
              Inl p \<Rightarrow> Inl p
            | Inr b \<Rightarrow> Inr (Some b, [WithAltScreen])))
      else Inr (None, []))"

section \<open>Sample inputs\<close>

text \<open>
  The configuration of the scenario of the specification, a terminal of 80 by 24, and
  two panels that do nothing but keep the messages they are given, in arrival order.
\<close>

definition demo_config :: Config where
  "demo_config =
     \<lparr> Name = ''Demo'', Host = ''0.0.0.0'', Port = 23, ShowAllRepos = False,
       Menu = [\<lparr> entry_Name = ''repo1'', entry_Note = [], entry_Repo = ''repo1'' \<rparr>],
       RepoSource = SharedSource \<rparr>"

definition demo_session :: SessionConfig where
  "demo_session = \<lparr> Width = 80, Height = 24, WindowChanges = 0 \<rparr>"

definition recording_ops :: "(unit msg list, unit, unit) panel_ops" where
  "recording_ops =
     \<lparr> panelUpdate = (\<lambda>p m. (Some (p @ [m]), None)), panelView = (\<lambda>p. ''panel'') \<rparr>"

definition start_bubble :: "unit msg list Bubble" where
  "start_bubble =
     \<lparr> config = Some demo_config, state = startState, error = [], width = 80, height = 24,
       windowChanges = 0, repoSource = SharedSource, repoMenu = [], repos = [],
       boxes = [None, None], activeBox = 0, repoSelect = None, commitsLog = None \<rparr>"

definition loaded_bubble :: "unit msg list Bubble" where
  "loaded_bubble =
     start_bubble \<lparr> state := loadedState, repoMenu := Menu demo_config, repos := [0],
                    boxes := [Some [], Some []], repoSelect := Some 1, commitsLog := Some 2 \<rparr>"

definition demo_consts :: layout_consts where
  "demo_consts = \<lparr> boxLeftWidth = 25, boxRightWidth = 80, horizontalPadding = 2 \<rparr>"

text \<open>
  A repository source for the samples: the successive states of the disk, each either
  unreadable, without a configuration repository, or with the given text as
  \<open>config.json\<close>; \<open>LoadRepos\<close> moves on to the next state. Creating the default
  configuration repository changes nothing, and the scanner knows the sample documents
  only.
\<close>

datatype snapshot = Unreadable | NoConfig | ConfigJson string

definition scenario_text :: string where
  \<open>scenario_text =
     ''{"name":"Demo","host":"0.0.0.0","port":23,"menu":[{"name":"repo1","note":"","repo":"repo1"}]}''\<close>

definition scenario_json :: json where
  "scenario_json =
     JObject [(''name'', JString ''Demo''), (''host'', JString ''0.0.0.0''),
              (''port'', JNumber (IntLit 23)),
              (''menu'', JArray [JObject [(''name'', JString ''repo1''), (''note'', JString []),
                                          (''repo'', JString ''repo1'')]])]"

definition show_all_text :: string where
  \<open>show_all_text = ''{"show_all": true}''\<close>

definition show_all_repos_text :: string where
  \<open>show_all_repos_text = ''{"show_all_repos": true}''\<close>

definition port_string_text :: string where
  \<open>port_string_text = ''{"port": "23"}''\<close>

definition truncated_text :: string where
  \<open>truncated_text = ''{"name": "Demo"''\<close>

definition full_text :: string where
  \<open>full_text =
     ''{"name":"Demo","host":"0.0.0.0","port":23,"show_all_repos":false,"menu":[{"name":"repo1","note":"","repo":"repo1"}],"motd":"hi"}''\<close>

definition array_text :: string where
  "array_text = ''[]''"

definition sample_documents :: "(string \<times> json) list" where
  "sample_documents =
     [(scenario_text, scenario_json),
      (show_all_text, JObject [(''show_all'', JBool True)]),
      (show_all_repos_text, JObject [(''show_all_repos'', JBool True)]),
      (port_string_text, JObject [(''port'', JString ''23'')]),
      (full_text, JObject (config_document demo_config @ [(''motd'', JString ''hi'')])),
      (array_text, JArray [])]"

definition sample_library :: "string \<Rightarrow> snapshot list \<Rightarrow> (snapshot list, string) library" where
  "sample_library path disk =
     \<lparr> NewRepoSource = (\<lambda>p. if p = path then disk else []),
       createDefaultConfigRepo = (\<lambda>rs. (rs, None)),
       LoadRepos =
         (\<lambda>rs. case tl rs of
                  Unreadable # rest \<Rightarrow> (tl rs, Some ''cannot read repositories'')
                | _ \<Rightarrow> (tl rs, None)),
       GetRepo =
         (\<lambda>rs n. case rs of
                    ConfigJson t # rest \<Rightarrow> if n = ''config'' then Inr t else Inl ''repo not found''
                  | _ \<Rightarrow> Inl ''repo not found''),
       LatestFile = (\<lambda>t f. if f = ''config.json'' then Inr t else Inl ''file not found''),
       scan = map_of sample_documents,
       unmarshalRepoSource =
         (\<lambda>v. case v of JObject kvs \<Rightarrow> None | _ \<Rightarrow> Some (UnmarshalTypeError v ''RepoSource'')) \<rparr>"

text \<open>
  A disk that starts with the scenario's configuration, is then unreadable for one
  reload, then holds a truncated \<open>config.json\<close>, then a valid one again; and the server
  state after a successful start on it.
\<close>

definition sample_disk :: "snapshot list" where
  "sample_disk =
     [ConfigJson full_text, Unreadable, ConfigJson truncated_text,
      ConfigJson show_all_repos_text]"

definition sample_server :: "snapshot list server" where
  "sample_server = \<lparr> source = sample_disk, appCfg = Some demo_config, logged = [] \<rparr>"

definition demo_ssh :: ssh_Session where
  "demo_ssh =
     \<lparr> Command = [], Pty_Width = 80, Pty_Height = 24, Pty_changes = 0, Pty_active = True \<rparr>"


section \<open>Properties of \<open>Update\<close>\<close>

lemmas go_arith = go_rem_def go_add_def go_sub_def wrap64_def signed_modulo_int_def
lemmas sample_defs = recording_ops_def loaded_bubble_def start_bubble_def demo_config_def
  demo_session_def demo_consts_def

lemma go_rem_add_range: "0 \<le> a \<Longrightarrow> a < 2 \<Longrightarrow> go_rem (go_add a 1) 2 = (a + 1) mod 2"
proof -
  assume "0 \<le> a" "a < 2"
  then have "a = 0 \<or> a = 1" by arith
  then show ?thesis
    by (auto simp: go_arith)
qed

lemma Update_tab:
  "Update ops b (KeyMsg ''tab'') =
     delegate ops (b\<lparr>activeBox := go_rem (go_add (activeBox b) 1) 2\<rparr>) [] (KeyMsg ''tab'')"
  by (simp add: Update_def)

lemma delegate_fields:
  assumes "delegate ops b cmds m = Inr (b', c)"
  shows "activeBox b' = activeBox b" and "state b' = state b" and "width b' = width b"
    and "height b' = height b" and "config b' = config b" and "repoMenu b' = repoMenu b"
  using assms
  by (auto simp: delegate_def split: if_splits option.splits prod.splits)

lemma delegate_not_loaded:
  "state b \<noteq> loadedState \<Longrightarrow> delegate ops b cmds m = Inr (b, Some (Batch cmds))"
  by (simp add: delegate_def)

lemma delegate_loaded:
  assumes "state b = loadedState" and "delegate ops b cmds m = Inr (b', c)"
  shows "\<exists>p. go_index (boxes b) (activeBox b) = Some (Some p) \<and>
             boxes b' = (boxes b)[nat (activeBox b) := fst (panelUpdate ops p m)] \<and>
             c = Some (Batch (cmds @ (case snd (panelUpdate ops p m) of
                                         None \<Rightarrow> [] | Some c' \<Rightarrow> [c'])))"
  using assms
  by (auto simp: delegate_def split: option.splits prod.splits)

text \<open>
  Claim C1, as amended. From a state whose focus index is 0 or 1, an \<open>Update\<close> with the
  tab key that returns has moved the focus to \<open>(activeBox + 1) mod 2\<close>. Outside
  \<open>loadedState\<close> no panel is touched and no command is scheduled. In \<open>loadedState\<close> the
  switch does not return after the focus change: the tab key is then handed to the update
  function of the panel that has just received the focus, whose returned model replaces
  it and whose command is the only one scheduled.
\<close>

theorem tab_advances_focus_then_delegates:
  assumes "Update ops b (KeyMsg ''tab'') = Inr (b', c)"
    and "0 \<le> activeBox b" and "activeBox b < 2"
  shows "activeBox b' = (activeBox b + 1) mod 2 \<and>
         (if state b = loadedState
          then \<exists>p. go_index (boxes b) (activeBox b') = Some (Some p) \<and>
                 boxes b' = (boxes b)[nat (activeBox b') := fst (panelUpdate ops p (KeyMsg ''tab''))] \<and>
                 c = Some (Batch (case snd (panelUpdate ops p (KeyMsg ''tab'')) of
                                     None \<Rightarrow> [] | Some c' \<Rightarrow> [c']))
          else boxes b' = boxes b \<and> c = Some (Batch []))"
proof -
  let ?b1 = "b\<lparr>activeBox := go_rem (go_add (activeBox b) 1) 2\<rparr>"
  have d: "delegate ops ?b1 [] (KeyMsg ''tab'') = Inr (b', c)"
    using assms(1) by (simp add: Update_tab)
  have a: "activeBox b' = (activeBox b + 1) mod 2"
    using delegate_fields(1)[OF d] go_rem_add_range[OF assms(2,3)] by simp
  show ?thesis
  proof (cases "state b = loadedState")
    case True
    then have "state ?b1 = loadedState" by simp
    from delegate_loaded[OF this d] a True show ?thesis
      using delegate_fields(1)[OF d] by auto
  next
    case False
    then have "state ?b1 \<noteq> loadedState" by simp
    from delegate_not_loaded[OF this, of ops "[]" "KeyMsg ''tab''"] d a False
    show ?thesis by auto
  qed
qed

text \<open>
  The theorem at the loaded sample session, focus on the left panel.
\<close>

theorem tab_advances_focus_then_delegates_witness:
  "Update recording_ops loaded_bubble (KeyMsg ''tab'') =
     Inr (loaded_bubble\<lparr>activeBox := 1, boxes := [Some [], Some [KeyMsg ''tab'']]\<rparr>,
          Some (Batch [])) \<and>
   activeBox (loaded_bubble\<lparr>activeBox := 1, boxes := [Some [], Some [KeyMsg ''tab'']]\<rparr>) =
     (activeBox loaded_bubble + 1) mod 2"
proof -
  have u: "Update recording_ops loaded_bubble (KeyMsg ''tab'') =
     Inr (loaded_bubble\<lparr>activeBox := 1, boxes := [Some [], Some [KeyMsg ''tab'']]\<rparr>,
          Some (Batch []))"
    by (simp add: Update_def delegate_def go_index_def go_arith sample_defs)
  have r: "0 \<le> activeBox loaded_bubble" "activeBox loaded_bubble < 2"
    by (simp_all add: sample_defs)
  from tab_advances_focus_then_delegates[OF u r] u show ?thesis by blast
qed

text \<open>
  Claim C1 as stated fails: in \<open>loadedState\<close>, with the focus on panel 0, the tab key
  moves the focus to panel 1 and that panel's update function receives the key (the
  recording panel has stored it).
\<close>

theorem tab_reaches_panel_counterexample:
  "Update recording_ops loaded_bubble (KeyMsg ''tab'') =
     Inr (loaded_bubble\<lparr>activeBox := 1, boxes := [Some [], Some [KeyMsg ''tab'']]\<rparr>,
          Some (Batch []))"
  by (simp add: Update_def delegate_def go_index_def go_arith sample_defs)

lemma go_index_in_bounds:
  "0 \<le> i \<Longrightarrow> i < int (length xs) \<Longrightarrow> go_index xs i = Some (xs ! nat i)"
  by (simp add: go_index_def)

lemma Update_Selected:
  "go_index (repoMenu b) i = Some e \<Longrightarrow>
     Update ops b (SelectedMsg i) =
       delegate ops (b\<lparr>activeBox := 1\<rparr>) [getRepoCmd (entry_Repo e)] (SelectedMsg i)"
  by (simp add: Update_def)

lemma Update_Active:
  "go_index (repoMenu b) i = Some e \<Longrightarrow>
     Update ops b (ActiveMsg i) =
       delegate ops b [getRepoCmd (entry_Repo e)] (ActiveMsg i)"
  by (simp add: Update_def)

lemma delegate_panel:
  "state b = loadedState \<Longrightarrow> go_index (boxes b) (activeBox b) = Some (Some p) \<Longrightarrow>
     delegate ops b cmds m =
       Inr (b\<lparr>boxes := (boxes b)[nat (activeBox b) := fst (panelUpdate ops p m)]\<rparr>,
            Some (Batch (cmds @ (case snd (panelUpdate ops p m) of
                                   None \<Rightarrow> [] | Some c' \<Rightarrow> [c']))))"
  by (simp add: delegate_def split: prod.splits option.splits)

text \<open>
  Claim C5, as amended. In \<open>loadedState\<close>, with an index inside the menu: a
  \<open>SelectedMsg\<close> schedules the load of the referenced repository, moves the focus to
  panel 1 (the viewer) and hands the message to that panel; an \<open>ActiveMsg\<close> schedules the
  same load and hands the message to the focused panel, and leaves the focus where it is.
\<close>

theorem selection_schedules_viewer_load:
  assumes "state b = loadedState"
    and "0 \<le> i" and "i < int (length (repoMenu b))"
    and "go_index (boxes b) 1 = Some (Some v)"
    and "go_index (boxes b) (activeBox b) = Some (Some p)"
  shows "Update ops b (SelectedMsg i) =
           Inr (b\<lparr>activeBox := 1,
                   boxes := (boxes b)[1 := fst (panelUpdate ops v (SelectedMsg i))]\<rparr>,
                Some (Batch (getRepoCmd (entry_Repo (repoMenu b ! nat i)) #
                       (case snd (panelUpdate ops v (SelectedMsg i)) of
                          None \<Rightarrow> [] | Some c' \<Rightarrow> [c'])))) \<and>
         Update ops b (ActiveMsg i) =
           Inr (b\<lparr>boxes := (boxes b)[nat (activeBox b) := fst (panelUpdate ops p (ActiveMsg i))]\<rparr>,
                Some (Batch (getRepoCmd (entry_Repo (repoMenu b ! nat i)) #
                       (case snd (panelUpdate ops p (ActiveMsg i)) of
                          None \<Rightarrow> [] | Some c' \<Rightarrow> [c']))))"
proof -
  have e: "go_index (repoMenu b) i = Some (repoMenu b ! nat i)"
    using assms(2,3) by (rule go_index_in_bounds)
  have s: "state (b\<lparr>activeBox := 1\<rparr>) = loadedState"
    and bx: "go_index (boxes (b\<lparr>activeBox := 1\<rparr>)) (activeBox (b\<lparr>activeBox := 1\<rparr>)) = Some (Some v)"
    using assms(1,4) by simp_all
  have 1: "Update ops b (SelectedMsg i) =
           Inr (b\<lparr>activeBox := 1,
                   boxes := (boxes b)[1 := fst (panelUpdate ops v (SelectedMsg i))]\<rparr>,
                Some (Batch (getRepoCmd (entry_Repo (repoMenu b ! nat i)) #
                       (case snd (panelUpdate ops v (SelectedMsg i)) of
                          None \<Rightarrow> [] | Some c' \<Rightarrow> [c']))))"
    unfolding Update_Selected[OF e] delegate_panel[OF s bx] by simp
  have 2: "Update ops b (ActiveMsg i) =
           Inr (b\<lparr>boxes := (boxes b)[nat (activeBox b) := fst (panelUpdate ops p (ActiveMsg i))]\<rparr>,
                Some (Batch (getRepoCmd (entry_Repo (repoMenu b ! nat i)) #
                       (case snd (panelUpdate ops p (ActiveMsg i)) of
                          None \<Rightarrow> [] | Some c' \<Rightarrow> [c']))))"
    unfolding Update_Active[OF e] delegate_panel[OF assms(1,5)] by simp
  from 1 2 show ?thesis by (rule conjI)
qed

text \<open>
  The theorem at the loaded sample session and index 0.
\<close>

theorem selection_schedules_viewer_load_witness:
  "Update recording_ops loaded_bubble (SelectedMsg 0) =
     Inr (loaded_bubble\<lparr>activeBox := 1, boxes := [Some [], Some [SelectedMsg 0]]\<rparr>,
          Some (Batch [getRepoCmd ''repo1''])) \<and>
   Update recording_ops loaded_bubble (ActiveMsg 0) =
     Inr (loaded_bubble\<lparr>boxes := [Some [ActiveMsg 0], Some []]\<rparr>,
          Some (Batch [getRepoCmd ''repo1'']))"
proof -
  have h: "state loaded_bubble = loadedState" "(0::int) \<le> 0"
    "0 < int (length (repoMenu loaded_bubble))"
    "go_index (boxes loaded_bubble) 1 = Some (Some [])"
    "go_index (boxes loaded_bubble) (activeBox loaded_bubble) = Some (Some [])"
    by (simp_all add: go_index_def sample_defs)
  show ?thesis
    using selection_schedules_viewer_load[OF h, of recording_ops]
    by (simp add: sample_defs)
qed

text \<open>
  Claim C5 as stated fails for the activation event: with the focus on panel 0, an
  \<open>ActiveMsg\<close> schedules the load and the focus is still 0 afterwards.
\<close>

theorem active_keeps_focus_counterexample:
  "Update recording_ops loaded_bubble (ActiveMsg 0) =
     Inr (loaded_bubble\<lparr>boxes := [Some [ActiveMsg 0], Some []]\<rparr>,
          Some (Batch [getRepoCmd ''repo1''])) \<and>
   activeBox (loaded_bubble\<lparr>boxes := [Some [ActiveMsg 0], Some []]\<rparr>) = 0"
  by (simp add: Update_def delegate_def go_index_def sample_defs)

text \<open>
  Claim C8. For an index in \<open>[0, len(repoMenu))\<close> the lookup \<open>repoMenu[msg.Index]\<close> of
  the \<open>SelectedMsg\<close> and \<open>ActiveMsg\<close> cases finds the entry at that index: the type
  switch does not panic and goes on with the load command for that entry's repository.
\<close>

theorem menu_index_in_bounds:
  assumes "0 \<le> i" and "i < int (length (repoMenu b))"
  shows "go_index (repoMenu b) i = Some (repoMenu b ! nat i) \<and>
         (switch_msg b (SelectedMsg i) :: panic + ('p, 'c) flow) =
            Inr (Continue (b\<lparr>activeBox := 1\<rparr>) [getRepoCmd (entry_Repo (repoMenu b ! nat i))]) \<and>
         (switch_msg b (ActiveMsg i) :: panic + ('p, 'c) flow) =
            Inr (Continue b [getRepoCmd (entry_Repo (repoMenu b ! nat i))])"
  using assms by (simp add: go_index_def)

text \<open>
  The theorem at the loaded sample session and index 0.
\<close>

theorem menu_index_in_bounds_witness:
  "(0::int) \<le> 0 \<and> 0 < int (length (repoMenu loaded_bubble)) \<and>
   go_index (repoMenu loaded_bubble) 0 = Some (repoMenu loaded_bubble ! nat 0) \<and>
   (switch_msg loaded_bubble (SelectedMsg 0) :: panic + (unit msg list, unit) flow) =
     Inr (Continue (loaded_bubble\<lparr>activeBox := 1\<rparr>) [getRepoCmd ''repo1''])"
proof -
  have h: "(0::int) \<le> 0" "0 < int (length (repoMenu loaded_bubble))"
    by (simp_all add: sample_defs)
  have e: "entry_Repo (repoMenu loaded_bubble ! nat 0) = ''repo1''"
    by (simp add: sample_defs)
  from menu_index_in_bounds[OF h, unfolded e] h show ?thesis by blast
qed

lemma switch_msg_focus:
  assumes "0 \<le> activeBox b \<and> activeBox b < 2"
  shows "(switch_msg b m :: panic + ('p, 'c) flow) = Inr (Return b' c) \<Longrightarrow>
           0 \<le> activeBox b' \<and> activeBox b' < 2"
    and "(switch_msg b m :: panic + ('p, 'c) flow) = Inr (Continue b' cmds) \<Longrightarrow>
           0 \<le> activeBox b' \<and> activeBox b' < 2"
  using assms go_rem_add_range[of "activeBox b"]
  by (cases m; auto split: if_splits option.splits)+

lemma Update_focus:
  fixes ops :: "('p, 'c, 'o) panel_ops"
  assumes "0 \<le> activeBox b \<and> activeBox b < 2" and "Update ops b m = Inr (b', c)"
  shows "0 \<le> activeBox b' \<and> activeBox b' < 2"
proof (cases "switch_msg b m :: panic + ('p, 'c) flow")
  case (Inl p)
  with assms(2) show ?thesis by (simp add: Update_def)
next
  case (Inr fl)
  show ?thesis
  proof (cases fl)
    case (Return b1 c1)
    with Inr assms(2) have "b' = b1" by (simp add: Update_def)
    with switch_msg_focus(1)[OF assms(1)] Inr Return show ?thesis by simp
  next
    case (Continue b1 cmds)
    with Inr assms(2) have d: "delegate ops b1 cmds m = Inr (b', c)" by (simp add: Update_def)
    from switch_msg_focus(2)[OF assms(1)] Inr Continue
    have "0 \<le> activeBox b1 \<and> activeBox b1 < 2" by simp
    with delegate_fields(1)[OF d] show ?thesis by simp
  qed
qed

lemma NewBubble_focus: "NewBubble cfg sCfg = Inr b \<Longrightarrow> activeBox b = 0"
  by (auto simp: NewBubble_def split: option.splits)

lemma reachable_focus: "reachable ops b \<Longrightarrow> 0 \<le> activeBox b \<and> activeBox b < 2"
proof (induction rule: reachable.induct)
  case (reachable_new cfg sCfg b)
  then show ?case by (simp add: NewBubble_focus)
next
  case (reachable_update b m b' c)
  from Update_focus[OF reachable_update.IH reachable_update.hyps(2)] show ?case .
next
  case (reachable_setup b s e menu rs bs sel lg)
  then show ?case by simp
qed

lemma Update_tab_focus:
  assumes "0 \<le> activeBox b \<and> activeBox b < 2" and "Update ops b (KeyMsg ''tab'') = Inr (b', c)"
  shows "activeBox b' = (activeBox b + 1) mod 2"
proof -
  have "delegate ops (b\<lparr>activeBox := go_rem (go_add (activeBox b) 1) 2\<rparr>) [] (KeyMsg ''tab'')
          = Inr (b', c)"
    using assms(2) by (simp add: Update_tab)
  from delegate_fields(1)[OF this] go_rem_add_range[of "activeBox b"] assms(1)
  show ?thesis by simp
qed

text \<open>
  Claim C9. In every reachable state, whatever the event, the state that \<open>Update\<close>
  returns has its focus index in \<open>[0, 2)\<close>; and two tab keys in succession bring the
  focus index back to where it was.
\<close>

theorem focus_index_valid_and_cyclic:
  assumes "reachable ops b"
  shows "(\<forall>m b' c. Update ops b m = Inr (b', c) \<longrightarrow> 0 \<le> activeBox b' \<and> activeBox b' < 2) \<and>
         (\<forall>b1 c1 b2 c2.
            Update ops b (KeyMsg ''tab'') = Inr (b1, c1) \<and>
            Update ops b1 (KeyMsg ''tab'') = Inr (b2, c2) \<longrightarrow> activeBox b2 = activeBox b)"
proof -
  have f: "0 \<le> activeBox b \<and> activeBox b < 2"
    using assms by (rule reachable_focus)
  have 1: "\<forall>m b' c. Update ops b m = Inr (b', c) \<longrightarrow> 0 \<le> activeBox b' \<and> activeBox b' < 2"
    using Update_focus[OF f] by blast
  have 2: "activeBox b2 = activeBox b"
    if "Update ops b (KeyMsg ''tab'') = Inr (b1, c1)"
      and "Update ops b1 (KeyMsg ''tab'') = Inr (b2, c2)" for b1 c1 b2 c2
  proof -
    have a1: "activeBox b1 = (activeBox b + 1) mod 2"
      using Update_tab_focus[OF f that(1)] .
    have f1: "0 \<le> activeBox b1 \<and> activeBox b1 < 2"
      using Update_focus[OF f that(1)] .
    have "activeBox b2 = (activeBox b1 + 1) mod 2"
      using Update_tab_focus[OF f1 that(2)] .
    with a1 f show ?thesis by presburger
  qed
  from 1 2 show ?thesis by blast
qed

text \<open>
  The theorem at the session that \<open>NewBubble\<close> builds from the sample configuration.
\<close>

theorem focus_index_valid_and_cyclic_witness:
  "reachable recording_ops start_bubble \<and>
   Update recording_ops start_bubble (KeyMsg ''tab'') =
     Inr (start_bubble\<lparr>activeBox := 1\<rparr>, Some (Batch [])) \<and>
   Update recording_ops (start_bubble\<lparr>activeBox := 1\<rparr>) (KeyMsg ''tab'') =
     Inr (start_bubble, Some (Batch [])) \<and>
   0 \<le> activeBox (start_bubble\<lparr>activeBox := 1\<rparr>) \<and>
   activeBox (start_bubble\<lparr>activeBox := 1\<rparr>) < 2 \<and>
   activeBox start_bubble = activeBox start_bubble"
proof -
  have n: "NewBubble (Some demo_config) demo_session = Inr start_bubble"
    by (simp add: NewBubble_def sample_defs)
  have r: "reachable recording_ops start_bubble"
    using n by (rule reachable_new)
  have u1: "Update recording_ops start_bubble (KeyMsg ''tab'') =
     Inr (start_bubble\<lparr>activeBox := 1\<rparr>, Some (Batch []))"
    by (simp add: Update_def delegate_def go_arith sample_defs)
  have u2: "Update recording_ops (start_bubble\<lparr>activeBox := 1\<rparr>) (KeyMsg ''tab'') =
     Inr (start_bubble, Some (Batch []))"
    by (simp add: Update_def delegate_def go_arith sample_defs)
  from focus_index_valid_and_cyclic[OF r] u1 u2 r show ?thesis by blast
qed





section \<open>Geometry and \<open>View\<close>\<close>

lemma switch_msg_geometry:
  "(switch_msg b m :: panic + ('p, 'c) flow) = Inr (Return b' c) \<Longrightarrow>
     (width b', height b') = (case m of WindowSizeMsg w h \<Rightarrow> (w, h) | _ \<Rightarrow> (width b, height b))"
  "(switch_msg b m :: panic + ('p, 'c) flow) = Inr (Continue b' cmds) \<Longrightarrow>
     (width b', height b') = (case m of WindowSizeMsg w h \<Rightarrow> (w, h) | _ \<Rightarrow> (width b, height b))"
  by (cases m; auto split: if_splits option.splits)+

lemma Update_geometry:
  fixes ops :: "('p, 'c, 'o) panel_ops"
  assumes "Update ops b m = Inr (b', c)"
  shows "(width b', height b') =
           (case m of WindowSizeMsg w h \<Rightarrow> (w, h) | _ \<Rightarrow> (width b, height b))"
proof (cases "switch_msg b m :: panic + ('p, 'c) flow")
  case (Inl p)
  with assms show ?thesis by (simp add: Update_def)
next
  case (Inr fl)
  show ?thesis
  proof (cases fl)
    case (Return b1 c1)
    with Inr assms have "b' = b1" by (simp add: Update_def)
    with switch_msg_geometry(1) Inr Return show ?thesis by blast
  next
    case (Continue b1 cmds)
    with Inr assms have d: "delegate ops b1 cmds m = Inr (b', c)" by (simp add: Update_def)
    from switch_msg_geometry(2) Inr Continue
    have "(width b1, height b1) =
            (case m of WindowSizeMsg w h \<Rightarrow> (w, h) | _ \<Rightarrow> (width b, height b))"
      by blast
    with delegate_fields(3,4)[OF d] show ?thesis by simp
  qed
qed

lemma run_geometry:
  "run ops b ms = Inr (b', cs) \<Longrightarrow>
     (width b', height b') =
       (case last_resize ms of Some d \<Rightarrow> d | None \<Rightarrow> (width b, height b))"
proof (induction ms arbitrary: b cs)
  case Nil
  then show ?case by simp
next
  case (Cons m ms)
  from Cons.prems obtain b1 c1 cs1 where
    u: "Update ops b m = Inr (b1, c1)" and r: "run ops b1 ms = Inr (b', cs1)"
    by (auto split: sum.splits prod.splits)
  from Cons.IH[OF r] Update_geometry[OF u] show ?case
    by (auto split: option.splits msg.splits)
qed

lemma View_header_width:
  "View C ops b = Inr d \<Longrightarrow> header_width d = Some (go_sub (width b) (horizontalPadding C))"
  by (auto simp: View_def Let_def split: option.splits sum.splits)

text \<open>
  Claim C7. When a sequence of events with at least one resize event has been processed,
  the stored width and height are those of the last resize event, and the frame that
  \<open>View\<close> renders from the resulting state gives the header that width less the
  horizontal padding (the header is the one place where \<open>View\<close> reads the geometry).
\<close>

theorem geometry_is_last_resize:
  assumes "run ops b ms = Inr (b', cs)" and "last_resize ms = Some (w, h)"
  shows "width b' = w \<and> height b' = h \<and>
         (\<forall>d. View C ops b' = Inr d \<longrightarrow> header_width d = Some (go_sub w (horizontalPadding C)))"
proof -
  from run_geometry[OF assms(1)] assms(2) have g: "width b' = w" "height b' = h"
    by simp_all
  from View_header_width[of C ops b'] g(1)
  have "\<forall>d. View C ops b' = Inr d \<longrightarrow> header_width d = Some (go_sub w (horizontalPadding C))"
    by simp
  with g show ?thesis by simp
qed

lemma viewForBox_panel:
  "go_index (boxes b) i = Some (Some p) \<Longrightarrow>
     viewForBox ops b i w =
       Inr (Render (WidthOf (Style (if i = activeBox b then activeBoxStyle else inactiveBoxStyle)) w)
              (Lit (panelView ops p)))"
  by (simp add: viewForBox_def)

text \<open>
  Claim C2, as amended. In \<open>loadedState\<close>, with a configuration and two panels in place,
  \<open>View\<close> renders the header at the stored width less the horizontal padding, and below
  it the two panels joined side by side, the focused one in the active style; the left
  panel is given the constant width \<open>boxLeftWidth\<close> and the right one the constant width
  \<open>boxRightWidth\<close>, whatever the stored geometry is.
\<close>

theorem loaded_view_layout:
  assumes "state b = loadedState" and "config b = Some cfg"
    and "go_index (boxes b) 0 = Some (Some p0)" and "go_index (boxes b) 1 = Some (Some p1)"
  shows "View C ops b =
           Inr (Render (Style appBoxStyle)
                  (Concat
                     [Render (WidthOf (Style headerStyle) (go_sub (width b) (horizontalPadding C)))
                        (Lit (Name cfg)),
                      Lit ''\<newline>\<newline>'',
                      JoinHorizontal Top
                        [Render (WidthOf (Style (if activeBox b = 0 then activeBoxStyle
                                                 else inactiveBoxStyle)) (boxLeftWidth C))
                           (Lit (panelView ops p0)),
                         Render (WidthOf (Style (if activeBox b = 1 then activeBoxStyle
                                                 else inactiveBoxStyle)) (boxRightWidth C))
                           (Lit (panelView ops p1))],
                      Lit ''\<newline>'',
                      Render (Style footerStyle) (Lit [])])) \<and>
         map_sum id panel_widths (View C ops b) =
           Inr [Some (boxLeftWidth C), Some (boxRightWidth C)] \<and>
         map_sum id panel_widths (View C ops (b\<lparr>width := w, height := h\<rparr>)) =
           map_sum id panel_widths (View C ops b)"
proof -
  have v: "View C ops b' =
           Inr (Render (Style appBoxStyle)
                  (Concat
                     [Render (WidthOf (Style headerStyle) (go_sub (width b') (horizontalPadding C)))
                        (Lit (Name cfg)),
                      Lit ''\<newline>\<newline>'',
                      JoinHorizontal Top
                        [Render (WidthOf (Style (if activeBox b' = 0 then activeBoxStyle
                                                 else inactiveBoxStyle)) (boxLeftWidth C))
                           (Lit (panelView ops p0)),
                         Render (WidthOf (Style (if activeBox b' = 1 then activeBoxStyle
                                                 else inactiveBoxStyle)) (boxRightWidth C))
                           (Lit (panelView ops p1))],
                      Lit ''\<newline>'',
                      Render (Style footerStyle) (Lit [])]))"
    if "state b' = loadedState" "config b' = Some cfg"
      "go_index (boxes b') 0 = Some (Some p0)" "go_index (boxes b') 1 = Some (Some p1)"
    for b' :: "'a Bubble"
    using that by (simp add: View_def viewForBox_panel)
  have 1: "state (b\<lparr>width := w, height := h\<rparr>) = loadedState"
    "config (b\<lparr>width := w, height := h\<rparr>) = Some cfg"
    "go_index (boxes (b\<lparr>width := w, height := h\<rparr>)) 0 = Some (Some p0)"
    "go_index (boxes (b\<lparr>width := w, height := h\<rparr>)) 1 = Some (Some p1)"
    using assms by simp_all
  show ?thesis
    unfolding v[OF assms] v[OF 1] by simp
qed

text \<open>
  The theorem at the loaded sample session, with box widths 25 and 80.
\<close>

theorem loaded_view_layout_witness:
  "map_sum id panel_widths (View demo_consts recording_ops loaded_bubble) =
     Inr [Some 25, Some 80] \<and>
   map_sum id panel_widths
     (View demo_consts recording_ops (loaded_bubble\<lparr>width := 120, height := 40\<rparr>)) =
     map_sum id panel_widths (View demo_consts recording_ops loaded_bubble)"
proof -
  have h: "state loaded_bubble = loadedState" "config loaded_bubble = Some demo_config"
    "go_index (boxes loaded_bubble) 0 = Some (Some [])"
    "go_index (boxes loaded_bubble) 1 = Some (Some [])"
    by (simp_all add: go_index_def sample_defs)
  have c: "boxLeftWidth demo_consts = 25" "boxRightWidth demo_consts = 80"
    by (simp_all add: demo_consts_def)
  from loaded_view_layout[OF h, where C = demo_consts and ops = recording_ops and w = 120 and h = 40] c
  show ?thesis by simp
qed

text \<open>
  Claim C2 as stated fails: with box widths 25 and 80 and padding 2, after a resize of the
  80-column session to 120 columns the header goes from 78 to 118 columns, while the two
  panels are rendered 25 and 80 columns wide before and after. The panel widths are no
  proportion of the terminal width, and 120 columns are not split between them.
\<close>

theorem panel_widths_ignore_geometry_counterexample:
  "Update recording_ops loaded_bubble (WindowSizeMsg 120 40) =
     Inr (loaded_bubble\<lparr>width := 120, height := 40,
                         boxes := [Some [WindowSizeMsg 120 40], Some []]\<rparr>,
          Some (Batch [])) \<and>
   map_sum id panel_widths
     (View demo_consts recording_ops
        (loaded_bubble\<lparr>width := 120, height := 40,
                        boxes := [Some [WindowSizeMsg 120 40], Some []]\<rparr>)) =
     Inr [Some 25, Some 80] \<and>
   map_sum id header_width
     (View demo_consts recording_ops
        (loaded_bubble\<lparr>width := 120, height := 40,
                        boxes := [Some [WindowSizeMsg 120 40], Some []]\<rparr>)) =
     Inr (Some 118) \<and>
   map_sum id panel_widths (View demo_consts recording_ops loaded_bubble) =
     Inr [Some 25, Some 80] \<and>
   map_sum id header_width (View demo_consts recording_ops loaded_bubble) = Inr (Some 78)"
  by (simp add: Update_def delegate_def View_def viewForBox_def go_index_def go_arith sample_defs)

text \<open>
  The theorem at the starting sample session, for two resize events around a key.
\<close>

theorem geometry_is_last_resize_witness:
  "run recording_ops start_bubble [WindowSizeMsg 100 30, KeyMsg ''j'', WindowSizeMsg 120 40] =
     Inr (start_bubble\<lparr>width := 120, height := 40\<rparr>,
          [Some (Batch []), Some (Batch []), Some (Batch [])]) \<and>
   width (start_bubble\<lparr>width := 120, height := 40\<rparr>) = 120 \<and>
   height (start_bubble\<lparr>width := 120, height := 40\<rparr>) = 40 \<and>
   map_sum id header_width
     (View demo_consts recording_ops (start_bubble\<lparr>width := 120, height := 40\<rparr>)) =
     Inr (Some 118)"
proof -
  have r: "run recording_ops start_bubble
             [WindowSizeMsg 100 30, KeyMsg ''j'', WindowSizeMsg 120 40] =
     Inr (start_bubble\<lparr>width := 120, height := 40\<rparr>,
          [Some (Batch []), Some (Batch []), Some (Batch [])])"
    by (simp add: Update_def delegate_def sample_defs)
  have l: "last_resize [WindowSizeMsg 100 30, KeyMsg ''j'', WindowSizeMsg 120 40 :: unit msg] =
             Some (120, 40)"
    by simp
  have v: "View demo_consts recording_ops (start_bubble\<lparr>width := 120, height := 40\<rparr>) =
     Inr (Render (Style appBoxStyle)
       (Concat
         [Render (WidthOf (Style headerStyle) 118) (Lit ''Demo''),
          Lit ''\<newline>\<newline>'',
          Render (Style normalStyle) (Lit ''Doing something weird 0''),
          Lit ''\<newline>'', Render (Style footerStyle) (Lit [])]))"
    by (simp add: View_def go_arith sample_defs)
  from geometry_is_last_resize[OF r l, of demo_consts] r v
  show ?thesis by simp
qed

section \<open>Configuration loading and refresh\<close>

lemma sample_scan:
  "scan (sample_library p d) scenario_text = Some scenario_json"
  "scan (sample_library p d) show_all_text = Some (JObject [(''show_all'', JBool True)])"
  "scan (sample_library p d) show_all_repos_text = Some (JObject [(''show_all_repos'', JBool True)])"
  "scan (sample_library p d) port_string_text = Some (JObject [(''port'', JString ''23'')])"
  "scan (sample_library p d) truncated_text = None"
  "scan (sample_library p d) full_text =
     Some (JObject (config_document demo_config @ [(''motd'', JString ''hi'')]))"
  "scan (sample_library p d) array_text = Some (JArray [])"
  by (simp_all add: sample_library_def sample_documents_def scenario_text_def
      show_all_text_def show_all_repos_text_def port_string_text_def truncated_text_def
      full_text_def array_text_def)

lemma sample_git:
  "NewRepoSource (sample_library p d) p = d"
  "createDefaultConfigRepo (sample_library p d) rs = (rs, None)"
  "GetRepo (sample_library p d) (ConfigJson t # rest) ''config'' = Inr t"
  "LatestFile (sample_library p d) t ''config.json'' = Inr t"
  "LoadRepos (sample_library p d) (x # Unreadable # rest) =
     (Unreadable # rest, Some ''cannot read repositories'')"
  "LoadRepos (sample_library p d) (x # ConfigJson t # rest) = (ConfigJson t # rest, None)"
  by (simp_all add: sample_library_def)

lemma field_keys:
  "config_field_of ''name'' = Some F_Name"
  "config_field_of ''host'' = Some F_Host"
  "config_field_of ''port'' = Some F_Port"
  "config_field_of ''show_all_repos'' = Some F_ShowAllRepos"
  "config_field_of ''menu'' = Some F_Menu"
  "config_field_of ''show_all'' = None"
  "entry_field_of ''name'' = Some E_Name"
  "entry_field_of ''note'' = Some E_Note"
  "entry_field_of ''repo'' = Some E_Repo"
  by (simp_all add: config_field_of_def entry_field_of_def ascii_lower_def lower_table_def)

lemma loadConfig_text:
  assumes "GetRepo lib rs ''config'' = Inr cr" and "LatestFile lib cr ''config.json'' = Inr text"
  shows "loadConfig lib rs =
           map_sum BadJson id (json_Unmarshal lib text (zero_Config\<lparr>RepoSource := SharedSource\<rparr>))"
  using assms by (simp add: loadConfig_def split: sum.splits)

lemma unknown_member_ignored:
  "config_field_of (fst kv) = None \<Longrightarrow> unmarshal_config_member lib cfg kv = Inr cfg"
  by (simp add: unmarshal_config_member_def)

lemma unmarshal_members_known:
  "unmarshal_members (unmarshal_config_member lib) cfg kvs =
     unmarshal_members (unmarshal_config_member lib) cfg (json_known kvs)"
proof (induction kvs arbitrary: cfg)
  case Nil
  then show ?case by (simp add: json_known_def)
next
  case (Cons kv kvs)
  show ?case
  proof (cases "config_field_of (fst kv)")
    case None
    then have "json_known (kv # kvs) = json_known kvs" by (simp add: json_known_def)
    with Cons.IH[of cfg] unknown_member_ignored[OF None, of lib cfg] show ?thesis by simp
  next
    case (Some f)
    then have "json_known (kv # kvs) = kv # json_known kvs" by (simp add: json_known_def)
    with Cons.IH show ?thesis by (simp split: sum.splits)
  qed
qed

lemma unmarshal_entry_document: "unmarshal_entry (entry_document e) = Inr e"
  by (simp add: unmarshal_entry_def entry_document_def unmarshal_entry_member_def field_keys
      unmarshal_string_def zero_MenuEntry_def)

lemma unmarshal_menu_documents: "unmarshal_menu (map entry_document es) = Inr es"
  by (induction es) (simp_all add: unmarshal_entry_document)

lemma unmarshal_config_document:
  assumes "- (2 ^ 63) \<le> Port cfg" and "Port cfg < 2 ^ 63"
  shows "unmarshal_members (unmarshal_config_member lib) c0 (config_document cfg) =
           Inr (cfg\<lparr>RepoSource := RepoSource c0\<rparr>)"
  using assms
  by (simp add: config_document_def unmarshal_config_member_def field_keys unmarshal_string_def
      unmarshal_int64_def unmarshal_bool_def unmarshal_menu_documents)





lemma port_string_rejected:
  "loadConfig (sample_library ''/repos'' []) [ConfigJson port_string_text] =
     Inl (BadJson (UnmarshalTypeError (JString ''23'') ''port''))"
  by (simp add: loadConfig_def json_Unmarshal_def sample_git sample_scan unmarshal_value_def
      unmarshal_config_member_def field_keys unmarshal_int64_def)

text \<open>
  The document of the specification's scenario loads into the sample configuration.
\<close>

lemma scenario_loads:
  "loadConfig (sample_library ''/repos'' []) [ConfigJson scenario_text] = Inr demo_config"
  by (simp add: loadConfig_def json_Unmarshal_def sample_git sample_scan unmarshal_value_def
      unmarshal_config_member_def field_keys unmarshal_string_def unmarshal_int64_def
      unmarshal_entry_def unmarshal_entry_member_def zero_MenuEntry_def
      zero_Config_def scenario_json_def demo_config_def)

lemma handler_new_session:
  assumes "appCfg s = Some cfg" and "Command sess = []" and "Pty_active sess"
  shows "\<exists>b. handler s sess = Inr (Some b, [WithAltScreen]) \<and> config b = Some cfg \<and>
             state b = startState \<and> width b = Pty_Width sess \<and> height b = Pty_Height sess"
  using assms by (simp add: handler_def NewBubble_def)

text \<open>
  Claim C6. In one pass of the refresh loop: if reloading the repositories fails, or if
  it succeeds and loading the configuration fails, the published configuration is the one
  from before and one line is added to the log for the failure; if both succeed, the
  published configuration is the newly loaded one, nothing is logged, and a session
  accepted from then on gets a controller built on that configuration.
\<close>

theorem refresh_retains_or_publishes:
  "(\<forall>rs err. LoadRepos lib (source s) = (rs, Some err) \<longrightarrow>
      appCfg (refresh lib s) = appCfg s \<and>
      logged (refresh lib s) = logged s @ [CannotLoadRepos err]) \<and>
   (\<forall>rs err. LoadRepos lib (source s) = (rs, None) \<and> loadConfig lib rs = Inl err \<longrightarrow>
      appCfg (refresh lib s) = appCfg s \<and>
      logged (refresh lib s) = logged s @ [CannotLoadConfig err]) \<and>
   (\<forall>rs cfg. LoadRepos lib (source s) = (rs, None) \<and> loadConfig lib rs = Inr cfg \<longrightarrow>
      appCfg (refresh lib s) = Some cfg \<and> logged (refresh lib s) = logged s \<and>
      (\<forall>sess. Command sess = [] \<and> Pty_active sess \<longrightarrow>
         (\<exists>b. (handler (refresh lib s) sess :: panic + ('p Bubble option \<times> ProgramOption list)) =
                 Inr (Some b, [WithAltScreen]) \<and> config b = Some cfg)))"
proof -
  have 1: "appCfg (refresh lib s) = appCfg s \<and>
           logged (refresh lib s) = logged s @ [CannotLoadRepos err]"
    if "LoadRepos lib (source s) = (rs, Some err)" for rs err
    using that by (simp add: refresh_def)
  have 2: "appCfg (refresh lib s) = appCfg s \<and>
           logged (refresh lib s) = logged s @ [CannotLoadConfig err]"
    if "LoadRepos lib (source s) = (rs, None)" "loadConfig lib rs = Inl err" for rs err
    using that by (simp add: refresh_def)
  have 3: "appCfg (refresh lib s) = Some cfg \<and> logged (refresh lib s) = logged s"
    if "LoadRepos lib (source s) = (rs, None)" "loadConfig lib rs = Inr cfg" for rs cfg
    using that by (simp add: refresh_def)
  have 4: "\<exists>b. (handler (refresh lib s) sess :: panic + ('p Bubble option \<times> ProgramOption list)) =
                 Inr (Some b, [WithAltScreen]) \<and> config b = Some cfg"
    if "LoadRepos lib (source s) = (rs, None)" "loadConfig lib rs = Inr cfg"
      "Command sess = []" "Pty_active sess" for rs cfg sess
  proof -
    from 3[OF that(1,2)] have "appCfg (refresh lib s) = Some cfg" by simp
    from handler_new_session[OF this that(3,4)] show ?thesis by blast
  qed
  from 1 2 3 4 show ?thesis by blast
qed

lemma sample_loadConfig:
  "loadConfig (sample_library p d) (ConfigJson t # rest) =
     map_sum BadJson id
       (json_Unmarshal (sample_library p d) t (zero_Config\<lparr>RepoSource := SharedSource\<rparr>))"
  by (rule loadConfig_text) (simp_all add: sample_git)

lemma sample_loads:
  "loadConfig (sample_library p d) (ConfigJson full_text # rest) = Inr demo_config"
  "loadConfig (sample_library p d) (ConfigJson truncated_text # rest) = Inl (BadJson SyntaxError)"
  "loadConfig (sample_library p d) (ConfigJson show_all_repos_text # rest) =
     Inr (zero_Config\<lparr>ShowAllRepos := True, RepoSource := SharedSource\<rparr>)"
  "loadConfig (sample_library p d) (ConfigJson show_all_text # rest) =
     Inr (zero_Config\<lparr>RepoSource := SharedSource\<rparr>)"
proof -
  have k: "json_known (config_document demo_config @ [(''motd'', JString ''hi'')]) =
             config_document demo_config"
    by (simp add: json_known_def config_document_def field_keys config_field_of_def
        ascii_lower_def lower_table_def)
  let ?c0 = "zero_Config\<lparr>RepoSource := SharedSource\<rparr>"
  have r: "- (2 ^ 63) \<le> Port demo_config" "Port demo_config < 2 ^ 63"
    by (simp_all add: demo_config_def)
  have "unmarshal_members (unmarshal_config_member (sample_library p d)) ?c0
          (config_document demo_config @ [(''motd'', JString ''hi'')]) =
        unmarshal_members (unmarshal_config_member (sample_library p d)) ?c0
          (json_known (config_document demo_config @ [(''motd'', JString ''hi'')]))"
    by (rule unmarshal_members_known)
  also have "\<dots> = unmarshal_members (unmarshal_config_member (sample_library p d)) ?c0
                    (config_document demo_config)"
    by (simp only: k)
  also have "\<dots> = Inr (demo_config\<lparr>RepoSource := RepoSource ?c0\<rparr>)"
    using r by (rule unmarshal_config_document)
  finally have "unmarshal_value (sample_library p d)
          (JObject (config_document demo_config @ [(''motd'', JString ''hi'')])) ?c0 =
        Inr (demo_config\<lparr>RepoSource := SharedSource\<rparr>)"
    by (simp add: unmarshal_value_def)
  then show "loadConfig (sample_library p d) (ConfigJson full_text # rest) = Inr demo_config"
    by (simp add: sample_loadConfig json_Unmarshal_def sample_scan demo_config_def)
  show "loadConfig (sample_library p d) (ConfigJson truncated_text # rest) =
          Inl (BadJson SyntaxError)"
    by (simp add: sample_loadConfig json_Unmarshal_def sample_scan)
  show "loadConfig (sample_library p d) (ConfigJson show_all_repos_text # rest) =
     Inr (zero_Config\<lparr>ShowAllRepos := True, RepoSource := SharedSource\<rparr>)"
    by (simp add: sample_loadConfig json_Unmarshal_def sample_scan unmarshal_value_def
        unmarshal_config_member_def field_keys unmarshal_bool_def)
  show "loadConfig (sample_library p d) (ConfigJson show_all_text # rest) =
     Inr (zero_Config\<lparr>RepoSource := SharedSource\<rparr>)"
    by (simp add: sample_loadConfig json_Unmarshal_def sample_scan unmarshal_value_def
        unmarshal_config_member_def field_keys)
qed

text \<open>
  The theorem over three passes on the sample disk: an unreadable disk, then a truncated
  \<open>config.json\<close>, then a valid one.
\<close>

theorem refresh_retains_or_publishes_witness:
  "SessionHandler (sample_library ''/repos'' sample_disk) ''/repos'' = Inr sample_server \<and>
   appCfg (refresh (sample_library ''/repos'' sample_disk) sample_server) = Some demo_config \<and>
   logged (refresh (sample_library ''/repos'' sample_disk) sample_server) =
     [CannotLoadRepos ''cannot read repositories''] \<and>
   appCfg (refresh (sample_library ''/repos'' sample_disk)
             (refresh (sample_library ''/repos'' sample_disk) sample_server)) =
     Some demo_config \<and>
   logged (refresh (sample_library ''/repos'' sample_disk)
             (refresh (sample_library ''/repos'' sample_disk) sample_server)) =
     [CannotLoadRepos ''cannot read repositories'', CannotLoadConfig (BadJson SyntaxError)] \<and>
   appCfg (refresh (sample_library ''/repos'' sample_disk)
             (refresh (sample_library ''/repos'' sample_disk)
                (refresh (sample_library ''/repos'' sample_disk) sample_server))) =
     Some (zero_Config\<lparr>ShowAllRepos := True, RepoSource := SharedSource\<rparr>) \<and>
   map_sum id (map_option config \<circ> fst)
     (handler (refresh (sample_library ''/repos'' sample_disk)
                 (refresh (sample_library ''/repos'' sample_disk)
                    (refresh (sample_library ''/repos'' sample_disk) sample_server)))
        demo_ssh :: panic + (unit msg list Bubble option \<times> ProgramOption list)) =
     Inr (Some (Some (zero_Config\<lparr>ShowAllRepos := True, RepoSource := SharedSource\<rparr>)))"
proof -
  let ?lib = "sample_library ''/repos'' sample_disk"
  let ?s1 = "refresh ?lib sample_server"
  let ?s2 = "refresh ?lib ?s1"
  let ?s3 = "refresh ?lib ?s2"
  let ?cfg = "zero_Config\<lparr>ShowAllRepos := True, RepoSource := SharedSource\<rparr>"
  have l0: "loadConfig ?lib sample_disk = Inr demo_config"
    by (simp add: sample_disk_def sample_loads)
  have h0: "SessionHandler ?lib ''/repos'' = Inr sample_server"
    by (simp add: SessionHandler_def sample_git l0 sample_server_def)
  have r1: "LoadRepos ?lib (source sample_server) =
              ([Unreadable, ConfigJson truncated_text, ConfigJson show_all_repos_text],
               Some ''cannot read repositories'')"
    by (simp add: sample_server_def sample_disk_def sample_git)
  have s1: "source ?s1 = [Unreadable, ConfigJson truncated_text, ConfigJson show_all_repos_text]"
    using r1 by (simp add: refresh_def)
  from refresh_retains_or_publishes[of ?lib sample_server] r1
  have a1: "appCfg ?s1 = Some demo_config \<and>
            logged ?s1 = [CannotLoadRepos ''cannot read repositories'']"
    by (simp add: sample_server_def)
  have r2: "LoadRepos ?lib (source ?s1) =
              ([ConfigJson truncated_text, ConfigJson show_all_repos_text], None)"
    by (simp add: s1 sample_git)
  have l2: "loadConfig ?lib [ConfigJson truncated_text, ConfigJson show_all_repos_text] =
              Inl (BadJson SyntaxError)"
    by (rule sample_loads)
  have s2: "source ?s2 = [ConfigJson truncated_text, ConfigJson show_all_repos_text]"
    using r2 l2 by (simp add: refresh_def)
  from refresh_retains_or_publishes[of ?lib ?s1] r2 l2 a1
  have a2: "appCfg ?s2 = Some demo_config \<and>
            logged ?s2 = [CannotLoadRepos ''cannot read repositories'',
                          CannotLoadConfig (BadJson SyntaxError)]"
    by simp
  have r3: "LoadRepos ?lib (source ?s2) = ([ConfigJson show_all_repos_text], None)"
    by (simp add: s2 sample_git)
  have l3: "loadConfig ?lib [ConfigJson show_all_repos_text] = Inr ?cfg"
    by (rule sample_loads)
  have d: "Command demo_ssh = [] \<and> Pty_active demo_ssh"
    by (simp add: demo_ssh_def)
  from refresh_retains_or_publishes[of ?lib ?s2, where ?'p = "unit msg list"] r3 l3 d
  have a3: "appCfg ?s3 = Some ?cfg \<and>
            (\<exists>b. (handler ?s3 demo_ssh :: panic + (unit msg list Bubble option \<times> ProgramOption list)) =
                 Inr (Some b, [WithAltScreen]) \<and> config b = Some ?cfg)"
    by blast
  then have h3: "map_sum id (map_option config \<circ> fst)
     (handler ?s3 demo_ssh :: panic + (unit msg list Bubble option \<times> ProgramOption list)) =
     Inr (Some (Some ?cfg))"
    by auto
  from h0 a1 a2 a3 h3 show ?thesis by blast
qed

text \<open>
  Claim C3 at a first load that fails. With a truncated \<open>config.json\<close>,
  \<open>SessionHandler\<close> logs the failure and returns its closure with \<open>appCfg\<close> nil
  (the process is not ended, unlike for a failing \<open>createDefaultConfigRepo\<close>), and the
  first interactive session makes \<open>NewBubble\<close> dereference that nil pointer.
\<close>

theorem failed_first_load_still_serves:
  "SessionHandler (sample_library ''/repos'' [ConfigJson truncated_text]) ''/repos'' =
     Inr \<lparr> source = [ConfigJson truncated_text], appCfg = None,
           logged = [CannotLoadConfig (BadJson SyntaxError)] \<rparr> \<and>
   (handler \<lparr> source = [ConfigJson truncated_text], appCfg = None,
              logged = [CannotLoadConfig (BadJson SyntaxError)] \<rparr> demo_ssh
      :: panic + (unit msg list Bubble option \<times> ProgramOption list)) = Inl NilDereference"
  by (simp add: SessionHandler_def sample_loads sample_git handler_def NewBubble_def demo_ssh_def)

text \<open>
  The two start-up failures side by side: the first ends the process, the second does not.
\<close>

lemma failed_default_repo_is_fatal:
  "createDefaultConfigRepo lib (NewRepoSource lib path) = (rs, Some err) \<Longrightarrow>
     SessionHandler lib path = Inl (CannotCreateConfigRepo err)"
  by (simp add: SessionHandler_def)

lemma failed_first_load_not_fatal:
  "createDefaultConfigRepo lib (NewRepoSource lib path) = (rs, None) \<Longrightarrow>
   loadConfig lib rs = Inl err \<Longrightarrow>
     SessionHandler lib path = Inr \<lparr> source = rs, appCfg = None, logged = [CannotLoadConfig err] \<rparr>"
  by (simp add: SessionHandler_def)

end
